theory Spec2Isabelle
  imports Main "HOL-Library.AList"
begin

section \<open>Values, external collaborators and the session state\<close>

text \<open>
  A value that JavaScript code throws, or that a promise rejects with. The loop reads
  only its \<^verbatim>\<open>message\<close> property: an Error object carries one, another
  value (a thrown string, a plain object) has none, and reading a property of
  \<^verbatim>\<open>undefined\<close> or \<^verbatim>\<open>null\<close> throws a TypeError.
\<close>

datatype thrown =
    JSError string string  \<comment> \<open>constructor name, message\<close>
  | NoMessage              \<comment> \<open>a value other than null and undefined, without a message\<close>
  | Nullish                \<comment> \<open>undefined or null\<close>

text \<open>
  The line editor (local-echo), the terminal and the console are outside the
  repository. The model records every call the shell makes on them, in order.
\<close>

datatype event =
    EchoAddAutocompleteHandler
  | EchoDetach
  | EchoAttach
  | EchoRead string
  | EchoReadChar string
  | EchoAbortRead string
  | EchoPrintln "string option"  \<comment> \<open>\<open>None\<close>: the argument was undefined\<close>
  | EchoPrintWide "string list"
  | TermWrite string
  | TermClear
  | TermOnData
  | ListenerDispose
  | ConsoleError thrown
  | ConsoleWarn string

datatype phase = Fresh | Listening | Closed

record stream =
  owner :: nat
  phase :: phase

text \<open>
  The mutable state a command handler can reach through its SubShell: the
  \<^verbatim>\<open>attached\<close> flag of the shell, the calls made so far, the
  \<^verbatim>\<open>destroyed\<close> flag of every SubShell constructed so far (by index), and the
  generators that \<^verbatim>\<open>readStream\<close> has returned (by index).
\<close>

record world =
  attached :: bool
  trace :: "event list"
  contexts :: "bool list"
  streams :: "stream list"

text \<open>What minimist returns: the positional arguments \<^verbatim>\<open>_\<close> and the named flags.\<close>

record parsed =
  positional :: "string list"
  flags :: "(string \<times> string) list"

text \<open>
  What calling a handler \<^verbatim>\<open>fn(shell, args, flags)\<close> comes to, as far as
  \<^verbatim>\<open>run\<close> can tell: it throws, or it returns undefined (a plain function
  without a return), a thenable that resolves or rejects, an object with
  \<^verbatim>\<open>next\<close> and no \<^verbatim>\<open>then\<close> (a generator: the chunks it yields, then
  how it ends), or an object with neither property.
\<close>

datatype outcome =
    Throws thrown
  | ReturnsNullish
  | ReturnsThenable "thrown option"
  | ReturnsSequence "string list" "thrown option"
  | ReturnsPlain

type_synonym handler = "nat \<Rightarrow> string list \<Rightarrow> parsed \<Rightarrow> world \<Rightarrow> outcome \<times> world"

type_synonym provider = "int \<Rightarrow> string list \<Rightarrow> string list"

record entry =
  entry_command :: string
  fn :: handler
  autocomplete :: "provider option"

text \<open>
  The shell. \<^verbatim>\<open>commands\<close> is a JavaScript Map: an association list in
  insertion order, where setting a bound key replaces its value in place.
\<close>

record shell =
  prompt :: "thrown + string"
  commands :: "(string \<times> entry) list"
  io :: world

definition emit :: "event \<Rightarrow> world \<Rightarrow> world" where
  "emit e w = w\<lparr>trace := trace w @ [e]\<rparr>"

definition ERROR_NOT_FOUND :: "string \<Rightarrow> string" where
  "ERROR_NOT_FOUND command = ''Command Not Found: '' @ command"

definition ERROR_ALREADY_REGISTERED :: "string \<Rightarrow> string" where
  "ERROR_ALREADY_REGISTERED command = ''Command Already Registered: '' @ command"

definition XtermJSShell :: shell where
  "XtermJSShell =
     \<lparr>prompt = Inr ''$ '',
      commands = [],
      io = \<lparr>attached = True, trace = [EchoAddAutocompleteHandler],
            contexts = [], streams = []\<rparr>\<rparr>"

section \<open>The command registry\<close>

definition commands_has :: "shell \<Rightarrow> string \<Rightarrow> bool" where
  "commands_has sh k = (map_of (commands sh) k \<noteq> None)"

definition commands_get :: "shell \<Rightarrow> string \<Rightarrow> entry option" where
  "commands_get sh k = map_of (commands sh) k"

definition commands_set :: "string \<Rightarrow> entry \<Rightarrow> shell \<Rightarrow> shell" where
  "commands_set k e sh = sh\<lparr>commands := AList.update k e (commands sh)\<rparr>"

definition commands_keys :: "shell \<Rightarrow> string list" where
  "commands_keys sh = map fst (commands sh)"

definition command :: "shell \<Rightarrow> string \<Rightarrow> handler \<Rightarrow> provider option \<Rightarrow> shell" where
  "command sh c f a =
     (let sh1 = (if commands_has sh c
                 then sh\<lparr>io := emit (ConsoleWarn (ERROR_ALREADY_REGISTERED c)) (io sh)\<rparr>
                 else sh)
      in commands_set c \<lparr>entry_command = c, fn = f, autocomplete = a\<rparr> sh1)"

definition command_all :: "shell \<Rightarrow> (string \<times> handler \<times> provider option) list \<Rightarrow> shell" where
  "command_all sh rs = foldl (\<lambda>s (c, f, a). command s c f a) sh rs"

definition autoCompleteCommands :: "shell \<Rightarrow> int \<Rightarrow> string list \<Rightarrow> string list" where
  "autoCompleteCommands sh index tokens =
     (let command = (case tokens of [] \<Rightarrow> None | t # _ \<Rightarrow> Some t) in
      if index = 0 then commands_keys sh
      else (case command of
              None \<Rightarrow> []
            | Some c \<Rightarrow>
                if commands_has sh c then
                  (case commands_get sh c of
                     None \<Rightarrow> []
                   | Some e \<Rightarrow>
                       (case autocomplete e of
                          None \<Rightarrow> []
                        | Some p \<Rightarrow> p (index - 1) (drop 1 tokens)))
                else []))"

section \<open>Attaching and detaching the line editor\<close>

definition detach :: "world \<Rightarrow> world" where
  "detach w = (if \<not> attached w then w else (emit EchoDetach w)\<lparr>attached := False\<rparr>)"

definition attach :: "world \<Rightarrow> world" where
  "attach w = (if attached w then w else (emit EchoAttach w)\<lparr>attached := True\<rparr>)"

section \<open>Input and output of the shell\<close>

definition readChar :: "string \<Rightarrow> world \<Rightarrow> world" where
  "readChar message w = emit (EchoReadChar message) w"

definition readLine :: "string \<Rightarrow> world \<Rightarrow> world" where
  "readLine message w = emit (EchoRead message) w"

definition abortRead :: "string \<Rightarrow> world \<Rightarrow> world" where
  "abortRead reason w = emit (EchoAbortRead reason) w"

definition print :: "string \<Rightarrow> world \<Rightarrow> world" where
  "print message w = emit (TermWrite message) w"

definition printLine :: "string \<Rightarrow> world \<Rightarrow> world" where
  "printLine message w = emit (EchoPrintln (Some message)) w"

definition printList :: "string list \<Rightarrow> world \<Rightarrow> world" where
  "printList list w = emit (EchoPrintWide list) w"

definition clear :: "world \<Rightarrow> world" where
  "clear w = emit TermClear w"

section \<open>SubShell\<close>

text \<open>
  The constructor returns the index of the new SubShell. Every method but
  \<^verbatim>\<open>readStream\<close> and \<^verbatim>\<open>destroy\<close> is an async function that starts with
  \<^verbatim>\<open>checkDestroyed\<close>: \<open>Some e\<close> is the error its promise rejects with.
\<close>

definition SubShell :: "world \<Rightarrow> nat \<times> world" where
  "SubShell w = (length (contexts w), w\<lparr>contexts := contexts w @ [False]\<rparr>)"

definition destroyed :: "world \<Rightarrow> nat \<Rightarrow> bool" where
  "destroyed w i = (i < length (contexts w) \<and> contexts w ! i)"

definition destroy :: "nat \<Rightarrow> world \<Rightarrow> world" where
  "destroy i w = w\<lparr>contexts := (contexts w)[i := True]\<rparr>"

definition TERMINAL_DESTROYED :: thrown where
  "TERMINAL_DESTROYED = JSError ''Error'' ''Terminal destroyed''"

definition checkDestroyed :: "world \<Rightarrow> nat \<Rightarrow> thrown option" where
  "checkDestroyed w i = (if destroyed w i then Some TERMINAL_DESTROYED else None)"

definition sub_readChar :: "nat \<Rightarrow> string \<Rightarrow> world \<Rightarrow> thrown option \<times> world" where
  "sub_readChar i message w =
     (case checkDestroyed w i of Some e \<Rightarrow> (Some e, w) | None \<Rightarrow> (None, readChar message w))"

definition sub_readLine :: "nat \<Rightarrow> string \<Rightarrow> world \<Rightarrow> thrown option \<times> world" where
  "sub_readLine i message w =
     (case checkDestroyed w i of Some e \<Rightarrow> (Some e, w) | None \<Rightarrow> (None, readLine message w))"

definition sub_abortRead :: "nat \<Rightarrow> string \<Rightarrow> world \<Rightarrow> thrown option \<times> world" where
  "sub_abortRead i reason w =
     (case checkDestroyed w i of Some e \<Rightarrow> (Some e, w) | None \<Rightarrow> (None, abortRead reason w))"

definition sub_print :: "nat \<Rightarrow> string \<Rightarrow> world \<Rightarrow> thrown option \<times> world" where
  "sub_print i message w =
     (case checkDestroyed w i of Some e \<Rightarrow> (Some e, w) | None \<Rightarrow> (None, print message w))"

definition sub_printLine :: "nat \<Rightarrow> string \<Rightarrow> world \<Rightarrow> thrown option \<times> world" where
  "sub_printLine i message w =
     (case checkDestroyed w i of Some e \<Rightarrow> (Some e, w) | None \<Rightarrow> (None, printLine message w))"

definition sub_printList :: "nat \<Rightarrow> string list \<Rightarrow> world \<Rightarrow> thrown option \<times> world" where
  "sub_printList i list w =
     (case checkDestroyed w i of Some e \<Rightarrow> (Some e, w) | None \<Rightarrow> (None, printList list w))"

definition sub_clear :: "nat \<Rightarrow> world \<Rightarrow> thrown option \<times> world" where
  "sub_clear i w =
     (case checkDestroyed w i of Some e \<Rightarrow> (Some e, w) | None \<Rightarrow> (None, clear w))"

subsection \<open>readStream\<close>

text \<open>
  \<^verbatim>\<open>readStream\<close> is an async generator function: the call runs none of its body
  and returns a generator, here the index of a new stream in phase \<open>Fresh\<close>. It does
  not call \<^verbatim>\<open>checkDestroyed\<close>.
\<close>

definition readStream :: "nat \<Rightarrow> world \<Rightarrow> thrown option \<times> nat \<times> world" where
  "readStream i w =
     (None, length (streams w), w\<lparr>streams := streams w @ [\<lparr>owner = i, phase = Fresh\<rparr>]\<rparr>)"

text \<open>The two callbacks that readStream hands to the EventIterator.\<close>

definition listen :: "world \<Rightarrow> world" where
  "listen w = detach (emit TermOnData w)"

definition remove_listener :: "world \<Rightarrow> world" where
  "remove_listener w = attach (emit ListenerDispose w)"

definition set_phase :: "nat \<Rightarrow> phase \<Rightarrow> world \<Rightarrow> world" where
  "set_phase s p w = w\<lparr>streams := (streams w)[s := (streams w ! s)\<lparr>phase := p\<rparr>]\<rparr>"

text \<open>What a chunk of terminal input comes to at a generator.\<close>

datatype delivery = Yields string | Ends | NotListening

text \<open>
  Modelled from the spec: the EventIterator class (package event-iterator) is not
  part of the sources. Section 4.4 of the specification has the behaviour taken here:
  opening the stream detaches the line editor and arranges for raw input to be pushed
  into the sequence, and the sequence stops, with the line editor attached again,
  when the consumer stops iterating or the owning context is destroyed. In terms of
  the two callbacks: the iterator calls the first when iteration over it starts,
  which is when the generator's body first runs (the consumer's first request), and
  the second when the iteration is returned from, by the \<^verbatim>\<open>break\<close> in the
  generator's loop or by the consumer's return while the generator is suspended in
  the loop. readStream hands the iterator nothing that ends it from the producer's
  side, so the sequence has no end of its own.

  \<open>stream_next\<close>: the consumer asks for a chunk. \<open>stream_data\<close>: a chunk of terminal
  input reaches the loop body, which breaks when the SubShell is destroyed and yields
  the chunk otherwise. \<open>stream_return\<close>: the generator is returned from (the
  consumer's \<^verbatim>\<open>break\<close>). An index that names no generator changes nothing.
\<close>

definition stream_next :: "nat \<Rightarrow> world \<Rightarrow> world" where
  "stream_next s w =
     (if s < length (streams w) \<and> phase (streams w ! s) = Fresh
      then set_phase s Listening (listen w) else w)"

definition stream_data :: "nat \<Rightarrow> string \<Rightarrow> world \<Rightarrow> delivery \<times> world" where
  "stream_data s chunk w =
     (if s < length (streams w) \<and> phase (streams w ! s) = Listening
      then (if destroyed w (owner (streams w ! s))
            then (Ends, set_phase s Closed (remove_listener w))
            else (Yields chunk, w))
      else (NotListening, w))"

definition stream_return :: "nat \<Rightarrow> world \<Rightarrow> world" where
  "stream_return s w =
     (if s < length (streams w) then
        (case phase (streams w ! s) of
           Fresh \<Rightarrow> set_phase s Closed w
         | Listening \<Rightarrow> set_phase s Closed (remove_listener w)
         | Closed \<Rightarrow> w)
      else w)"

section \<open>Running a command\<close>

text \<open>
  \<^verbatim>\<open>for await (let data of result) shell.print(data)\<close>: the promise that
  \<^verbatim>\<open>print\<close> returns is not awaited, so its rejection does not reach
  \<^verbatim>\<open>run\<close>.
\<close>

fun drain :: "nat \<Rightarrow> string list \<Rightarrow> world \<Rightarrow> world" where
  "drain i [] w = w"
| "drain i (d # ds) w = drain i ds (snd (sub_print i d w))"

text \<open>
  The messages of the TypeErrors that the JavaScript engine raises when a property of
  undefined is read; their wording is the engine's.
\<close>

definition ERROR_DESTRUCTURE :: thrown where
  "ERROR_DESTRUCTURE = JSError ''TypeError'' ''Cannot destructure property fn of undefined''"

definition ERROR_READ_THEN :: thrown where
  "ERROR_READ_THEN = JSError ''TypeError'' ''Cannot read properties of undefined (reading then)''"

definition ERROR_READ_MESSAGE :: thrown where
  "ERROR_READ_MESSAGE =
     JSError ''TypeError'' ''Cannot read properties of undefined (reading message)''"

text \<open>
  The command name \<open>cmd\<close> is \<open>None\<close> when the caller passes undefined. The
  result is \<open>None\<close> when the promise of \<^verbatim>\<open>run\<close> resolves and \<open>Some e\<close>
  when it rejects with \<open>e\<close>.
\<close>

definition run :: "shell \<Rightarrow> string option \<Rightarrow> string list \<Rightarrow> parsed \<Rightarrow> thrown option \<times> shell" where
  "run sh cmd args flgs =
     (case cmd of
        None \<Rightarrow> (None, sh)
      | Some c \<Rightarrow>
          if c = [] then (None, sh)
          else if \<not> commands_has sh c
          then (Some (JSError ''TypeError'' (ERROR_NOT_FOUND c)), sh)
          else
            (case commands_get sh c of
               None \<Rightarrow> (Some ERROR_DESTRUCTURE, sh)
             | Some e \<Rightarrow>
                 (case SubShell (io sh) of
                    (shell, w1) \<Rightarrow>
                      (case fn e shell args flgs w1 of
                         (Throws t, w2) \<Rightarrow> (Some t, sh\<lparr>io := w2\<rparr>)
                       | (ReturnsNullish, w2) \<Rightarrow> (Some ERROR_READ_THEN, sh\<lparr>io := w2\<rparr>)
                       | (ReturnsThenable (Some t), w2) \<Rightarrow> (Some t, sh\<lparr>io := w2\<rparr>)
                       | (ReturnsThenable None, w2) \<Rightarrow> (None, sh\<lparr>io := destroy shell w2\<rparr>)
                       | (ReturnsSequence chunks (Some t), w2) \<Rightarrow>
                           (Some t, sh\<lparr>io := drain shell chunks w2\<rparr>)
                       | (ReturnsSequence chunks None, w2) \<Rightarrow>
                           (None, sh\<lparr>io := destroy shell (drain shell chunks w2)\<rparr>)
                       | (ReturnsPlain, w2) \<Rightarrow> (None, sh\<lparr>io := destroy shell w2\<rparr>)))))"

section \<open>The read-eval-print loop\<close>

text \<open>
  The tokenizer (string-to-argv) and the flag parser (minimist) are outside the
  repository: parameters of the loop. Either may throw.
\<close>

record libs =
  stringToArgv :: "string \<Rightarrow> thrown + string list"
  minimist :: "string list \<Rightarrow> thrown + parsed"

text \<open>What \<^verbatim>\<open>echo.read\<close> settles with: a line, or a rejection (an aborted read).\<close>

datatype input = Line string | ReadRejected thrown

text \<open>
  How the loop stands once the input typed so far is used up: waiting in
  \<^verbatim>\<open>echo.read\<close> for the next line, or ended by an error that nothing caught.
\<close>

datatype status = AwaitingLine | Uncaught thrown

definition message :: "thrown \<Rightarrow> thrown + string option" where
  "message e =
     (case e of
        JSError c m \<Rightarrow> Inr (Some m)
      | NoMessage \<Rightarrow> Inr None
      | Nullish \<Rightarrow> Inl ERROR_READ_MESSAGE)"

fun repl :: "libs \<Rightarrow> shell \<Rightarrow> input list \<Rightarrow> status \<times> shell" where
  "repl L sh inputs =
     (case prompt sh of
        Inl e \<Rightarrow> (Uncaught e, sh)
      | Inr p \<Rightarrow>
          let sh1 = sh\<lparr>io := emit (EchoRead p) (io sh)\<rparr> in
          (case inputs of
             [] \<Rightarrow> (AwaitingLine, sh1)
           | ReadRejected e # rest \<Rightarrow> (Uncaught e, sh1)
           | Line line # rest \<Rightarrow>
               (case stringToArgv L line of
                  Inl e \<Rightarrow> (Uncaught e, sh1)
                | Inr argv \<Rightarrow>
                    let command = (case argv of [] \<Rightarrow> None | c # _ \<Rightarrow> Some c) in
                    (case minimist L (drop 1 argv) of
                       Inl e \<Rightarrow> (Uncaught e, sh1)
                     | Inr parsed \<Rightarrow>
                         (case run sh1 command (positional parsed) parsed of
                            (None, sh2) \<Rightarrow> repl L sh2 rest
                          | (Some e, sh2) \<Rightarrow>
                              let sh3 = sh2\<lparr>io := emit (ConsoleError e) (io sh2)\<rparr> in
                              (case message e of
                                 Inl e' \<Rightarrow> (Uncaught e', sh3)
                               | Inr m \<Rightarrow>
                                   repl L (sh3\<lparr>io := emit (EchoPrintln m) (io sh3)\<rparr>) rest))))))"

declare repl.simps [simp del]

section \<open>Call sequences and what the line editor sees\<close>

text \<open>A sequence of calls of the shell's \<^verbatim>\<open>attach\<close> and \<^verbatim>\<open>detach\<close>.\<close>

datatype session_call = Attach | Detach

fun call :: "world \<Rightarrow> session_call \<Rightarrow> world" where
  "call w Attach = attach w"
| "call w Detach = detach w"

definition calls :: "world \<Rightarrow> session_call list \<Rightarrow> world" where
  "calls w cs = foldl call w cs"

text \<open>
  \<open>echo_alternates b es\<close> reads the calls \<open>es\<close> from a line editor that is attached
  iff \<open>b\<close>: it is \<open>None\<close> when some detach reaches a detached editor or some attach an
  attached one, and otherwise tells whether the editor is attached in the end.
\<close>

fun echo_alternates :: "bool \<Rightarrow> event list \<Rightarrow> bool option" where
  "echo_alternates b [] = Some b"
| "echo_alternates b (EchoDetach # es) = (if b then echo_alternates False es else None)"
| "echo_alternates b (EchoAttach # es) = (if b then None else echo_alternates True es)"
| "echo_alternates b (_ # es) = echo_alternates b es"

definition consistent :: "world \<Rightarrow> bool" where
  "consistent w = (echo_alternates True (trace w) = Some (attached w))"

section \<open>The life of raw input streams\<close>

text \<open>
  What can happen, one event at a time (JavaScript runs one callback at a time): a
  SubShell is constructed or destroyed, \<^verbatim>\<open>readStream\<close> is called on a SubShell,
  the consumer of a generator asks for a chunk, a chunk reaches a generator, a
  generator is returned from.
\<close>

datatype stream_event =
    NewSubShell | Destroy nat | ReadStream nat | Next nat | Data nat string | Return nat

fun step :: "world \<Rightarrow> stream_event \<Rightarrow> world" where
  "step w NewSubShell = snd (SubShell w)"
| "step w (Destroy i) = destroy i w"
| "step w (ReadStream i) = snd (snd (readStream i w))"
| "step w (Next s) = stream_next s w"
| "step w (Data s chunk) = snd (stream_data s chunk w)"
| "step w (Return s) = stream_return s w"


text \<open>The number of generators that hold a subscription to the terminal's data.\<close>

definition listening :: "world \<Rightarrow> nat" where
  "listening w = length (filter (\<lambda>s. phase s = Listening) (streams w))"



section \<open>Sample inputs\<close>

definition plain_handler :: handler where
  "plain_handler i args p w = (ReturnsPlain, w)"

definition resolving_handler :: handler where
  "resolving_handler i args p w = (ReturnsThenable None, w)"

definition files :: provider where
  "files i args = (if i = 0 then [''a.txt'', ''b.txt''] else args)"

definition detached_world :: world where
  "detached_world = detach (io XtermJSShell)"

definition stale_world :: world where
  "stale_world = destroy 0 (snd (SubShell (io XtermJSShell)))"

definition boom :: thrown where
  "boom = JSError ''Error'' ''boom''"

definition throwing_handler :: handler where
  "throwing_handler i args p w = (Throws boom, w)"

definition rejecting_handler :: handler where
  "rejecting_handler i args p w = (ReturnsThenable (Some boom), w)"



definition no_args :: parsed where
  "no_args = \<lparr>positional = [], flags = []\<rparr>"

text \<open>
  Two stand-ins for the tokenizer and the flag parser: both take a line without
  spaces as one token; the second throws on a line that holds a double quote.
\<close>

definition word_libs :: libs where
  "word_libs =
     \<lparr>stringToArgv = (\<lambda>line. Inr (if line = [] then [] else [line])),
      minimist = (\<lambda>argv. Inr \<lparr>positional = argv, flags = []\<rparr>)\<rparr>"








section \<open>Registry lemmas\<close>

lemma commands_command:
  "commands (command sh c f a) =
     AList.update c \<lparr>entry_command = c, fn = f, autocomplete = a\<rparr> (commands sh)"
  by (simp add: command_def commands_set_def Let_def)

lemma io_command:
  "io (command sh c f a) =
     (if commands_has sh c then emit (ConsoleWarn (ERROR_ALREADY_REGISTERED c)) (io sh)
      else io sh)"
  by (simp add: command_def commands_set_def Let_def)

lemma get_command:
  "commands_get (command sh c f a) k =
     (if k = c then Some \<lparr>entry_command = c, fn = f, autocomplete = a\<rparr>
      else commands_get sh k)"
  by (simp add: commands_get_def commands_command update_conv')

lemma get_command_all_other:
  "k \<notin> fst ` set rs \<Longrightarrow> commands_get (command_all sh rs) k = commands_get sh k"
  unfolding command_all_def
proof (induction rs arbitrary: sh)
  case Nil
  then show ?case by simp
next
  case (Cons r rs)
  obtain c f a where r: "r = (c, f, a)" by (cases r)
  from Cons.prems have "k \<noteq> c" and "k \<notin> fst ` set rs" by (auto simp: r)
  then show ?case using Cons.IH [of "command sh c f a"] by (simp add: r get_command)
qed

lemma command_all_append:
  "command_all sh (rs @ rs') = command_all (command_all sh rs) rs'"
  by (simp add: command_all_def)

lemma command_all_Cons:
  "command_all sh ((c, f, a) # rs) = command_all (command sh c f a) rs"
  by (simp add: command_all_def)

lemma get_command_all_last:
  "c \<notin> fst ` set rs' \<Longrightarrow>
   commands_get (command_all sh (rs @ (c, f, a) # rs')) c =
     Some \<lparr>entry_command = c, fn = f, autocomplete = a\<rparr>"
  by (simp add: command_all_append command_all_Cons get_command_all_other get_command)

lemma has_command_all_mono:
  "commands_has sh k \<Longrightarrow> commands_has (command_all sh rs) k"
  unfolding command_all_def
proof (induction rs arbitrary: sh)
  case Nil
  then show ?case by simp
next
  case (Cons r rs)
  obtain c f a where r: "r = (c, f, a)" by (cases r)
  have "commands_has (command sh c f a) k"
    using Cons.prems by (simp add: commands_has_def commands_command update_conv')
  then show ?case using Cons.IH [of "command sh c f a"] by (simp add: r)
qed

lemma has_command: "commands_has (command sh c f a) c"
  by (simp add: commands_has_def commands_command update_conv')

text \<open>
  C5. After any sequence of registrations that registers \<open>c\<close>, \<open>has c\<close> is true, and
  \<open>get c\<close> is the entry of the last registration of \<open>c\<close> (last write wins). A
  registration changes nothing but the registry, except that registering a bound name
  first writes one warning to the console; it returns the shell.
\<close>

theorem command_last_write_wins:
  "commands_has (command_all sh (rs @ (c, f, a) # rs')) c \<and>
   (c \<notin> fst ` set rs' \<longrightarrow>
      commands_get (command_all sh (rs @ (c, f, a) # rs')) c =
        Some \<lparr>entry_command = c, fn = f, autocomplete = a\<rparr>) \<and>
   prompt (command sh c f a) = prompt sh \<and>
   io (command sh c f a) =
     (if commands_has sh c then emit (ConsoleWarn (ERROR_ALREADY_REGISTERED c)) (io sh)
      else io sh)"
proof -
  have "commands_has (command_all (command (command_all sh rs) c f a) rs') c"
    by (rule has_command_all_mono) (rule has_command)
  then have "commands_has (command_all sh (rs @ (c, f, a) # rs')) c"
    by (simp add: command_all_append command_all_Cons)
  moreover have "prompt (command sh c f a) = prompt sh"
    by (simp add: command_def commands_set_def Let_def)
  ultimately show ?thesis
    by (simp add: get_command_all_last io_command)
qed

text \<open>The same sequence, with a witness at a name registered twice.\<close>

theorem command_last_write_wins_witness:
  "''help'' \<notin> fst ` set [(''ls'', plain_handler, None)] \<and>
   commands_has
     (command_all XtermJSShell
        ([(''help'', plain_handler, None)] @
         (''help'', resolving_handler, None) # [(''ls'', plain_handler, None)])) ''help'' \<and>
   commands_get
     (command_all XtermJSShell
        ([(''help'', plain_handler, None)] @
         (''help'', resolving_handler, None) # [(''ls'', plain_handler, None)])) ''help'' =
     Some \<lparr>entry_command = ''help'', fn = resolving_handler, autocomplete = None\<rparr>"
  using command_last_write_wins
    [of XtermJSShell "[(''help'', plain_handler, None)]" "''help''" resolving_handler None
        "[(''ls'', plain_handler, None)]"]
  by simp

section \<open>Autocompletion\<close>

lemma distinct_keys_command_all:
  "distinct (map fst (commands s)) \<Longrightarrow> distinct (map fst (commands (command_all s rs)))"
  unfolding command_all_def
proof (induction rs arbitrary: s)
  case Nil
  then show ?case by simp
next
  case (Cons r rs)
  obtain c f a where r: "r = (c, f, a)" by (cases r)
  have "distinct (map fst (commands (command s c f a)))"
    using Cons.prems by (simp add: commands_command distinct_update)
  then show ?case using Cons.IH [of "command s c f a"] by (simp add: r)
qed

text \<open>
  C7. At index 0, whatever the tokens, the result is the list of the keys of the
  registry: its elements are exactly the names for which \<open>has\<close> is true, and in a
  registry built by registrations no name occurs twice.
\<close>

theorem autoComplete_index_0:
  "autoCompleteCommands sh 0 tokens = commands_keys sh \<and>
   set (commands_keys sh) = {k. commands_has sh k} \<and>
   distinct (commands_keys (command_all XtermJSShell rs))"
proof -
  have "set (commands_keys sh) = {k. commands_has sh k}"
    by (auto simp: commands_keys_def commands_has_def map_of_eq_None_iff)
  moreover have "distinct (commands_keys (command_all XtermJSShell rs))"
    unfolding commands_keys_def
    by (rule distinct_keys_command_all) (simp add: XtermJSShell_def)
  ultimately show ?thesis by (simp add: autoCompleteCommands_def)
qed

text \<open>
  C8. At an index \<open>k \<ge> 1\<close> and tokens \<open>cmd # args\<close>: when \<open>cmd\<close> is registered with a
  provider \<open>P\<close> the result is \<open>P (k - 1) args\<close>; when it is registered without a
  provider, or not registered, the result is empty.
\<close>

theorem autoComplete_arguments:
  assumes "1 \<le> k"
  shows "(\<forall>e P. commands_get sh cmd = Some e \<and> autocomplete e = Some P \<longrightarrow>
            autoCompleteCommands sh k (cmd # args) = P (k - 1) args) \<and>
         (\<forall>e. commands_get sh cmd = Some e \<and> autocomplete e = None \<longrightarrow>
            autoCompleteCommands sh k (cmd # args) = []) \<and>
         (\<not> commands_has sh cmd \<longrightarrow> autoCompleteCommands sh k (cmd # args) = [])"
  using assms by (auto simp: autoCompleteCommands_def commands_has_def commands_get_def)

theorem autoComplete_arguments_witness:
  "(1::int) \<le> 2 \<and>
   autoCompleteCommands (command XtermJSShell ''cat'' plain_handler (Some files)) 2
     [''cat'', ''x'', ''y''] = [''x'', ''y''] \<and>
   autoCompleteCommands (command XtermJSShell ''cat'' plain_handler (Some files)) 1
     [''cat'', ''x'', ''y''] = [''a.txt'', ''b.txt''] \<and>
   autoCompleteCommands (command XtermJSShell ''cat'' plain_handler None) 2
     [''cat'', ''x'', ''y''] = [] \<and>
   autoCompleteCommands XtermJSShell 2 [''cat'', ''x'', ''y''] = []"
  using autoComplete_arguments
          [of 2 "command XtermJSShell ''cat'' plain_handler (Some files)" "''cat''" "[''x'', ''y'']"]
        autoComplete_arguments
          [of 1 "command XtermJSShell ''cat'' plain_handler (Some files)" "''cat''" "[''x'', ''y'']"]
        autoComplete_arguments
          [of 2 "command XtermJSShell ''cat'' plain_handler None" "''cat''" "[''x'', ''y'']"]
        autoComplete_arguments [of 2 "XtermJSShell" "''cat''" "[''x'', ''y'']"]
  by (simp add: get_command files_def commands_has_def XtermJSShell_def)

section \<open>Attach and detach\<close>

lemma echo_alternates_append:
  "echo_alternates b (es @ es') =
     (case echo_alternates b es of None \<Rightarrow> None | Some b' \<Rightarrow> echo_alternates b' es')"
proof (induction es arbitrary: b)
  case Nil
  then show ?case by simp
next
  case (Cons e es)
  then show ?case by (cases e) simp_all
qed


lemma consistent_detach: "consistent w \<Longrightarrow> consistent (detach w)"
  by (simp add: consistent_def detach_def emit_def echo_alternates_append)

lemma consistent_attach: "consistent w \<Longrightarrow> consistent (attach w)"
  by (simp add: consistent_def attach_def emit_def echo_alternates_append)

lemma consistent_init: "consistent (io XtermJSShell)"
  by (simp add: consistent_def XtermJSShell_def)

lemma consistent_calls: "consistent w \<Longrightarrow> consistent (calls w cs)"
  unfolding calls_def
proof (induction cs arbitrary: w)
  case Nil
  then show ?case by simp
next
  case (Cons c cs)
  have "consistent (call w c)"
    using Cons.prems by (cases c) (simp_all add: consistent_attach consistent_detach)
  then show ?case using Cons.IH by simp
qed

text \<open>
  C10. \<^verbatim>\<open>detach\<close> on a detached shell and \<^verbatim>\<open>attach\<close> on an attached shell
  change nothing: no call reaches the line editor and the flag stays. Both are
  idempotent. After any sequence of calls on a new shell, the calls that reached the
  line editor alternate, detach first, and the flag tells which came last.
\<close>

theorem attach_detach_idempotent:
  "(\<not> attached w \<longrightarrow> detach w = w) \<and>
   (attached w \<longrightarrow> attach w = w) \<and>
   detach (detach w) = detach w \<and>
   attach (attach w) = attach w \<and>
   echo_alternates True (trace (calls (io XtermJSShell) cs)) =
     Some (attached (calls (io XtermJSShell) cs))"
proof -
  have "consistent (calls (io XtermJSShell) cs)"
    using consistent_init by (rule consistent_calls)
  then show ?thesis
    by (simp add: consistent_def detach_def attach_def)
qed

theorem attach_detach_idempotent_witness:
  "\<not> attached detached_world \<and> detach detached_world = detached_world \<and>
   attached (io XtermJSShell) \<and> attach (io XtermJSShell) = io XtermJSShell \<and>
   trace (calls (io XtermJSShell) [Detach, Detach, Attach, Attach, Detach]) =
     [EchoAddAutocompleteHandler, EchoDetach, EchoAttach, EchoDetach] \<and>
   echo_alternates True
     (trace (calls (io XtermJSShell) [Detach, Detach, Attach, Attach, Detach])) = Some False"
  using attach_detach_idempotent [of detached_world "[Detach, Detach, Attach, Attach, Detach]"]
        attach_detach_idempotent [of "io XtermJSShell" "[]"]
  by (simp add: detached_world_def XtermJSShell_def detach_def attach_def emit_def calls_def)

section \<open>A destroyed SubShell\<close>

lemma destroyed_listen: "destroyed (listen w) j = destroyed w j"
  by (simp add: listen_def detach_def emit_def destroyed_def)

lemma destroyed_set_phase: "destroyed (set_phase s p w) j = destroyed w j"
  by (simp add: set_phase_def destroyed_def)

text \<open>
  C4, as the code has it. On a destroyed SubShell, print, printLine, printList,
  readChar, readLine, abortRead and clear reject with the error "Terminal destroyed"
  and do nothing else. readStream does not: it returns a generator without an error;
  the generator's first request subscribes to the terminal and detaches the shell as
  on a live SubShell, and the first chunk ends the generator without a yield.
\<close>

theorem destroyed_operations:
  assumes "destroyed w i"
  shows "sub_print i m w = (Some TERMINAL_DESTROYED, w) \<and>
         sub_printLine i m w = (Some TERMINAL_DESTROYED, w) \<and>
         sub_printList i ms w = (Some TERMINAL_DESTROYED, w) \<and>
         sub_readChar i m w = (Some TERMINAL_DESTROYED, w) \<and>
         sub_readLine i m w = (Some TERMINAL_DESTROYED, w) \<and>
         sub_abortRead i m w = (Some TERMINAL_DESTROYED, w) \<and>
         sub_clear i w = (Some TERMINAL_DESTROYED, w) \<and>
         (case readStream i w of
            (r, s, w1) \<Rightarrow>
              r = None \<and> s = length (streams w) \<and>
              trace (stream_next s w1) = trace (detach (emit TermOnData w)) \<and>
              fst (stream_data s c (stream_next s w1)) = Ends)"
proof -
  have ops: "sub_print i m w = (Some TERMINAL_DESTROYED, w)"
    "sub_printLine i m w = (Some TERMINAL_DESTROYED, w)"
    "sub_printList i ms w = (Some TERMINAL_DESTROYED, w)"
    "sub_readChar i m w = (Some TERMINAL_DESTROYED, w)"
    "sub_readLine i m w = (Some TERMINAL_DESTROYED, w)"
    "sub_abortRead i m w = (Some TERMINAL_DESTROYED, w)"
    "sub_clear i w = (Some TERMINAL_DESTROYED, w)"
    using assms
    by (simp_all add: sub_print_def sub_printLine_def sub_printList_def sub_readChar_def
        sub_readLine_def sub_abortRead_def sub_clear_def checkDestroyed_def)
  define s where "s = length (streams w)"
  define w1 where "w1 = w\<lparr>streams := streams w @ [\<lparr>owner = i, phase = Fresh\<rparr>]\<rparr>"
  have rs: "readStream i w = (None, s, w1)"
    by (simp add: readStream_def s_def w1_def)
  have fresh: "s < length (streams w1)" "phase (streams w1 ! s) = Fresh"
    by (simp_all add: s_def w1_def)
  then have nx: "stream_next s w1 = set_phase s Listening (listen w1)"
    by (simp add: stream_next_def)
  have tr: "trace (stream_next s w1) = trace (detach (emit TermOnData w))"
    unfolding nx by (simp add: set_phase_def listen_def detach_def emit_def w1_def)
  have st: "streams (stream_next s w1) = (streams w1)[s := (streams w1 ! s)\<lparr>phase := Listening\<rparr>]"
    by (simp add: nx set_phase_def listen_def detach_def emit_def)
  have ph: "s < length (streams (stream_next s w1))"
    "phase (streams (stream_next s w1) ! s) = Listening"
    "owner (streams (stream_next s w1) ! s) = i"
    using fresh by (simp_all add: st) (simp add: s_def w1_def)
  have "destroyed (stream_next s w1) i"
    using assms
    by (simp add: nx destroyed_set_phase destroyed_listen) (simp add: w1_def destroyed_def)
  then have "fst (stream_data s c (stream_next s w1)) = Ends"
    using ph by (simp add: stream_data_def)
  with tr show ?thesis by (simp add: ops rs) (simp add: s_def)
qed

theorem destroyed_operations_witness:
  "destroyed stale_world 0 \<and>
   sub_print 0 ''hi'' stale_world = (Some (JSError ''Error'' ''Terminal destroyed''), stale_world) \<and>
   sub_clear 0 stale_world = (Some (JSError ''Error'' ''Terminal destroyed''), stale_world)"
  using destroyed_operations [of stale_world 0 "''hi''" "[]" "''x''"]
  by (simp add: stale_world_def SubShell_def XtermJSShell_def destroy_def destroyed_def
      TERMINAL_DESTROYED_def)

text \<open>
  C4 as stated fails for readStream: on a destroyed SubShell the call returns a
  generator and no error, and the generator ends at its first chunk, again without an
  error.
\<close>

theorem readStream_destroyed_counterexample:
  "destroyed stale_world 0 \<and>
   fst (readStream 0 stale_world) = None \<and>
   fst (stream_data 0 ''x'' (stream_next 0 (snd (snd (readStream 0 stale_world))))) = Ends"
  by (simp add: stale_world_def SubShell_def XtermJSShell_def destroy_def destroyed_def
      readStream_def stream_next_def stream_data_def set_phase_def listen_def detach_def
      emit_def remove_listener_def attach_def)

section \<open>Running a command\<close>

lemma get_has: "commands_get sh c = Some e \<Longrightarrow> commands_has sh c"
  by (simp add: commands_get_def commands_has_def)

lemma io_XtermJSShell:
  "io XtermJSShell =
     \<lparr>attached = True, trace = [EchoAddAutocompleteHandler], contexts = [], streams = []\<rparr>"
  by (simp add: XtermJSShell_def)

lemma has_XtermJSShell: "\<not> commands_has XtermJSShell c"
  by (simp add: XtermJSShell_def commands_has_def)

lemma prompt_XtermJSShell: "prompt XtermJSShell = Inr ''$ ''"
  by (simp add: XtermJSShell_def)

lemma prompt_command: "prompt (command sh c f a) = prompt sh"
  by (simp add: command_def commands_set_def Let_def)

lemma has_command_iff: "commands_has (command sh c f a) k = (k = c \<or> commands_has sh k)"
  by (simp add: commands_has_def commands_command update_conv')

lemma run_registered:
  assumes "c \<noteq> []" and "commands_get sh c = Some e"
  shows "run sh (Some c) args flgs =
     (case fn e (length (contexts (io sh))) args flgs
             ((io sh)\<lparr>contexts := contexts (io sh) @ [False]\<rparr>) of
        (Throws t, w2) \<Rightarrow> (Some t, sh\<lparr>io := w2\<rparr>)
      | (ReturnsNullish, w2) \<Rightarrow> (Some ERROR_READ_THEN, sh\<lparr>io := w2\<rparr>)
      | (ReturnsThenable (Some t), w2) \<Rightarrow> (Some t, sh\<lparr>io := w2\<rparr>)
      | (ReturnsThenable None, w2) \<Rightarrow>
          (None, sh\<lparr>io := destroy (length (contexts (io sh))) w2\<rparr>)
      | (ReturnsSequence chunks (Some t), w2) \<Rightarrow>
          (Some t, sh\<lparr>io := drain (length (contexts (io sh))) chunks w2\<rparr>)
      | (ReturnsSequence chunks None, w2) \<Rightarrow>
          (None, sh\<lparr>io := destroy (length (contexts (io sh)))
                            (drain (length (contexts (io sh))) chunks w2)\<rparr>)
      | (ReturnsPlain, w2) \<Rightarrow> (None, sh\<lparr>io := destroy (length (contexts (io sh))) w2\<rparr>))"
  using assms get_has [OF assms(2)]
  by (simp add: run_def SubShell_def)

text \<open>
  C1, on the code. A registered handler throws, or returns a promise that rejects:
  \<^verbatim>\<open>run\<close> rejects with the same value and the SubShell it constructed is left
  with \<open>destroyed = False\<close>. The last two lines show the path that does destroy it: a
  promise that resolves.
\<close>

theorem run_error_leaves_context_alive:
  "fst (run (command XtermJSShell ''fail'' throwing_handler None)
          (Some ''fail'') [] no_args) = Some boom \<and>
   contexts (io (snd (run (command XtermJSShell ''fail'' throwing_handler None)
                        (Some ''fail'') [] no_args))) = [False] \<and>
   fst (run (command XtermJSShell ''fail'' rejecting_handler None)
          (Some ''fail'') [] no_args) = Some boom \<and>
   contexts (io (snd (run (command XtermJSShell ''fail'' rejecting_handler None)
                        (Some ''fail'') [] no_args))) = [False] \<and>
   fst (run (command XtermJSShell ''ok'' resolving_handler None)
          (Some ''ok'') [] no_args) = None \<and>
   contexts (io (snd (run (command XtermJSShell ''ok'' resolving_handler None)
                        (Some ''ok'') [] no_args))) = [True]"
proof -
  have g: "commands_get (command XtermJSShell c f None) c =
      Some \<lparr>entry_command = c, fn = f, autocomplete = None\<rparr>" for c f
    by (simp add: get_command)
  have i: "io (command XtermJSShell c f None) = io XtermJSShell" for c f
    by (simp add: io_command has_XtermJSShell)
  show ?thesis
    by (simp add: run_registered [OF _ g] i throwing_handler_def rejecting_handler_def
        resolving_handler_def destroy_def io_XtermJSShell)
qed





section \<open>Commands that are not registered\<close>

lemma repl_Line:
  "prompt sh = Inr p \<Longrightarrow> stringToArgv L line = Inr argv \<Longrightarrow>
   minimist L (drop 1 argv) = Inr parsed \<Longrightarrow>
   run (sh\<lparr>io := emit (EchoRead p) (io sh)\<rparr>) (case argv of [] \<Rightarrow> None | c # _ \<Rightarrow> Some c)
     (positional parsed) parsed = (r, sh2) \<Longrightarrow>
   repl L sh (Line line # rest) =
     (case r of
        None \<Rightarrow> repl L sh2 rest
      | Some e \<Rightarrow>
          (case message e of
             Inl e' \<Rightarrow> (Uncaught e', sh2\<lparr>io := emit (ConsoleError e) (io sh2)\<rparr>)
           | Inr m \<Rightarrow>
               repl L (sh2\<lparr>io := emit (EchoPrintln m) (emit (ConsoleError e) (io sh2))\<rparr>) rest))"
  by (subst repl.simps) (simp add: Let_def split: option.splits sum.splits)

lemma repl_Nil:
  "prompt sh = Inr p \<Longrightarrow> repl L sh [] = (AwaitingLine, sh\<lparr>io := emit (EchoRead p) (io sh)\<rparr>)"
  by (subst repl.simps) (simp add: Let_def)

lemma run_not_registered:
  "c \<noteq> [] \<Longrightarrow> \<not> commands_has sh c \<Longrightarrow>
   run sh (Some c) args flgs = (Some (JSError ''TypeError'' (ERROR_NOT_FOUND c)), sh)"
  by (simp add: run_def)

text \<open>
  C6, as the code has it. For a name that is not empty and not registered,
  \<^verbatim>\<open>run\<close> rejects with a TypeError whose message is "Command Not Found: " and the
  name, and leaves the shell as it was: no SubShell is constructed and no handler is
  called. In the loop, a line whose first token is such a name is answered by logging
  the error and printing its message; the loop then goes on with the next line, and
  with no line left it is waiting in the next read.
\<close>

theorem run_not_found:
  assumes "c \<noteq> []" and "\<not> commands_has sh c"
  shows "run sh (Some c) args flgs =
           (Some (JSError ''TypeError'' (''Command Not Found: '' @ c)), sh) \<and>
         (prompt sh = Inr p \<and> stringToArgv L line = Inr (c # argv) \<and>
          minimist L argv = Inr parsed \<longrightarrow>
            repl L sh (Line line # rest) =
              repl L (sh\<lparr>io := (io sh)\<lparr>trace := trace (io sh) @
                        [EchoRead p,
                         ConsoleError (JSError ''TypeError'' (''Command Not Found: '' @ c)),
                         EchoPrintln (Some (''Command Not Found: '' @ c))]\<rparr>\<rparr>) rest \<and>
            repl L sh [Line line] =
              (AwaitingLine,
               sh\<lparr>io := (io sh)\<lparr>trace := trace (io sh) @
                        [EchoRead p,
                         ConsoleError (JSError ''TypeError'' (''Command Not Found: '' @ c)),
                         EchoPrintln (Some (''Command Not Found: '' @ c)),
                         EchoRead p]\<rparr>\<rparr>))"
proof -
  have r: "run s (Some c) args' flgs' = (Some (JSError ''TypeError'' (''Command Not Found: '' @ c)), s)"
    if "commands s = commands sh" for s args' flgs'
    using assms that by (simp add: run_not_registered commands_has_def ERROR_NOT_FOUND_def)
  show ?thesis
  proof (intro conjI impI)
    show "run sh (Some c) args flgs =
           (Some (JSError ''TypeError'' (''Command Not Found: '' @ c)), sh)"
      by (rule r) simp
  next
    assume h: "prompt sh = Inr p \<and> stringToArgv L line = Inr (c # argv) \<and>
          minimist L argv = Inr parsed"
    let ?s1 = "sh\<lparr>io := emit (EchoRead p) (io sh)\<rparr>"
    have r1: "run ?s1 (case c # argv of [] \<Rightarrow> None | c # _ \<Rightarrow> Some c) (positional parsed) parsed =
           (Some (JSError ''TypeError'' (''Command Not Found: '' @ c)), ?s1)"
      by (simp add: r)
    have m: "minimist L (drop 1 (c # argv)) = Inr parsed" using h by simp
    have step: "repl L sh (Line line # rest') =
        repl L (sh\<lparr>io := (io sh)\<lparr>trace := trace (io sh) @
                        [EchoRead p,
                         ConsoleError (JSError ''TypeError'' (''Command Not Found: '' @ c)),
                         EchoPrintln (Some (''Command Not Found: '' @ c))]\<rparr>\<rparr>) rest'" for rest'
      using h by (simp add: repl_Line [OF _ _ m r1] message_def emit_def)
    show "repl L sh (Line line # rest) =
              repl L (sh\<lparr>io := (io sh)\<lparr>trace := trace (io sh) @
                        [EchoRead p,
                         ConsoleError (JSError ''TypeError'' (''Command Not Found: '' @ c)),
                         EchoPrintln (Some (''Command Not Found: '' @ c))]\<rparr>\<rparr>) rest"
      by (rule step)
    show "repl L sh [Line line] =
              (AwaitingLine,
               sh\<lparr>io := (io sh)\<lparr>trace := trace (io sh) @
                        [EchoRead p,
                         ConsoleError (JSError ''TypeError'' (''Command Not Found: '' @ c)),
                         EchoPrintln (Some (''Command Not Found: '' @ c)),
                         EchoRead p]\<rparr>\<rparr>)"
      using h by (simp add: step repl_Nil emit_def)
  qed
qed

theorem run_not_found_witness:
  "''nope'' \<noteq> [] \<and> \<not> commands_has (command XtermJSShell ''help'' plain_handler None) ''nope'' \<and>
   prompt (command XtermJSShell ''help'' plain_handler None) = Inr ''$ '' \<and>
   stringToArgv word_libs ''nope'' = Inr [''nope''] \<and>
   minimist word_libs [] = Inr no_args \<and>
   fst (run (command XtermJSShell ''help'' plain_handler None) (Some ''nope'') [] no_args) =
     Some (JSError ''TypeError'' ''Command Not Found: nope'') \<and>
   fst (repl word_libs (command XtermJSShell ''help'' plain_handler None) [Line ''nope'']) = AwaitingLine \<and>
   trace (io (snd (repl word_libs (command XtermJSShell ''help'' plain_handler None) [Line ''nope'']))) =
     [EchoAddAutocompleteHandler, EchoRead ''$ '',
      ConsoleError (JSError ''TypeError'' ''Command Not Found: nope''),
      EchoPrintln (Some ''Command Not Found: nope''), EchoRead ''$ '']"
  using run_not_found [of "''nope''" "command XtermJSShell ''help'' plain_handler None" "[]" no_args
              "''$ ''" word_libs "''nope''" "[]" no_args "[Line ''help'']"]
  by (simp add: has_command_iff has_XtermJSShell prompt_command prompt_XtermJSShell
      io_command io_XtermJSShell word_libs_def no_args_def)

text \<open>
  C6 as stated fails at the empty name: it is not registered, and \<^verbatim>\<open>run\<close>
  resolves without an error, because \<^verbatim>\<open>!command\<close> holds for the empty string.
\<close>

theorem run_empty_name_counterexample:
  "\<not> commands_has XtermJSShell [] \<and> run XtermJSShell (Some []) [] no_args = (None, XtermJSShell)"
  by (simp add: commands_has_def XtermJSShell_def run_def)

section \<open>Errors in the loop\<close>





section \<open>Raw input streams\<close>



lemma attached_set_phase [simp]: "attached (set_phase s p w) = attached w"
  by (simp add: set_phase_def)

lemma trace_set_phase [simp]: "trace (set_phase s p w) = trace w"
  by (simp add: set_phase_def)

lemma consistent_set_phase [simp]: "consistent (set_phase s p w) = consistent w"
  by (simp add: consistent_def)


lemma streams_listen [simp]: "streams (listen w) = streams w"
  by (simp add: listen_def detach_def emit_def)

lemma streams_remove_listener [simp]: "streams (remove_listener w) = streams w"
  by (simp add: remove_listener_def attach_def emit_def)

lemma attached_listen [simp]: "\<not> attached (listen w)"
  by (simp add: listen_def detach_def emit_def)

lemma attached_remove_listener [simp]: "attached (remove_listener w)"
  by (simp add: remove_listener_def attach_def emit_def)



lemma listening_listen [simp]: "listening (listen w) = listening w"
  by (simp add: listening_def)

lemma listening_remove_listener [simp]: "listening (remove_listener w) = listening w"
  by (simp add: listening_def)

lemma listening_pos:
  "s < length (streams w) \<Longrightarrow> phase (streams w ! s) = Listening \<Longrightarrow> 1 \<le> listening w"
proof -
  assume "s < length (streams w)" and "phase (streams w ! s) = Listening"
  then have "streams w ! s \<in> set (filter (\<lambda>s. phase s = Listening) (streams w))"
    by simp
  then have "filter (\<lambda>s. phase s = Listening) (streams w) \<noteq> []"
    by (metis empty_iff list.set(1))
  then show ?thesis
    by (simp add: listening_def Suc_le_eq)
qed













end
